theory Spec2Isabelle
  imports Complex_Main "HOL-Library.Monad_Syntax"
begin

section \<open>Swept AABB 2D: the collision test, the physics tick and the fixed-step scheduler\<close>

text \<open>
  A shallow embedding of \<^verbatim>\<open>Main.cpp\<close>: \<^verbatim>\<open>SweptAABB\<close>, \<^verbatim>\<open>update\<close>, \<^verbatim>\<open>checkTime\<close> and the
  part of \<^verbatim>\<open>init\<close> that sets up the two bodies.

  Numbers. \<^verbatim>\<open>SweptAABB\<close> and \<^verbatim>\<open>update\<close> compute in \<^verbatim>\<open>float\<close>. Their finite values
  are reals and their arithmetic is written without rounding, so the properties below
  speak of the quantities the code computes (its distances, its entry and exit times, its
  extent test) and of the comparisons between them. The two infinities that \<^verbatim>\<open>SweptAABB\<close>
  writes on purpose are the extra values of the type \<open>fl\<close>. No NaN is modelled: with
  finite inputs the source never produces one, because it only divides by a displacement it
  has tested to be nonzero. \<^verbatim>\<open>checkTime\<close> computes in \<^verbatim>\<open>double\<close>, and there every
  operation is rounded (\<open>dbl\<close>).
\<close>

subsection \<open>Floats with the two infinities\<close>

datatype fl = NInf | Fin real | PInf

instantiation fl :: linorder
begin

fun less_eq_fl :: "fl \<Rightarrow> fl \<Rightarrow> bool" where
  "less_eq_fl NInf b = True"
| "less_eq_fl (Fin a) NInf = False"
| "less_eq_fl (Fin a) (Fin b) = (a \<le> b)"
| "less_eq_fl (Fin a) PInf = True"
| "less_eq_fl PInf NInf = False"
| "less_eq_fl PInf (Fin b) = False"
| "less_eq_fl PInf PInf = True"

fun less_fl :: "fl \<Rightarrow> fl \<Rightarrow> bool" where
  "less_fl a NInf = False"
| "less_fl NInf (Fin b) = True"
| "less_fl NInf PInf = True"
| "less_fl (Fin a) (Fin b) = (a < b)"
| "less_fl (Fin a) PInf = True"
| "less_fl PInf (Fin b) = False"
| "less_fl PInf PInf = False"

instance
proof
  fix a b c :: fl
  show "(a < b) = (a \<le> b \<and> \<not> b \<le> a)"
    by (cases a; cases b) auto
  show "a \<le> a"
    by (cases a) auto
  show "a \<le> b \<Longrightarrow> b \<le> c \<Longrightarrow> a \<le> c"
    by (cases a; cases b; cases c) auto
  show "a \<le> b \<Longrightarrow> b \<le> a \<Longrightarrow> a = b"
    by (cases a; cases b) auto
  show "a \<le> b \<or> b \<le> a"
    by (cases a; cases b) auto
qed

end

text \<open>
  Division is the one operation of the source that has a forbidden operand. It is modelled
  as failing on a zero divisor, so that "the code never divides by zero" is the statement
  that the model never returns \<open>None\<close>.
\<close>

definition fdiv :: "real \<Rightarrow> real \<Rightarrow> fl option" where
  "fdiv a b = (if b = 0 then None else Some (Fin (a / b)))"

text \<open>\<^verbatim>\<open>1.0f - t\<close> for a float \<open>t\<close> that may be infinite.\<close>

fun one_minus :: "fl \<Rightarrow> fl" where
  "one_minus NInf = PInf"
| "one_minus (Fin t) = Fin (1 - t)"
| "one_minus PInf = NInf"

text \<open>
  A float used as a factor of a finite product in \<^verbatim>\<open>update\<close>. The model covers finite
  factors; an infinite one would give an infinite or undefined position and is reported
  as \<open>None\<close>.
\<close>

fun finite_part :: "fl \<Rightarrow> real option" where
  "finite_part (Fin t) = Some t"
| "finite_part NInf = None"
| "finite_part PInf = None"

subsection \<open>Doubles\<close>

text \<open>Rounding to an integer, ties to the even one.\<close>

definition round_even :: "real \<Rightarrow> int" where
  "round_even m =
     (let f = \<lfloor>m\<rfloor>;
          r = m - of_int f
      in if r < 1 / 2 then f
         else if r > 1 / 2 then f + 1
         else if even f then f else f + 1)"

text \<open>
  The \<^verbatim>\<open>double\<close> nearest to a real: 53 significant bits, round to nearest, ties to even.
  The exponent range is not bounded: overflow is not modelled, and the sums and differences
  of doubles that fall in the subnormal range are exact in the source and here.
\<close>

definition dbl :: "real \<Rightarrow> real" where
  "dbl x =
     (if x = 0 then 0
      else (let e = \<lfloor>log 2 \<bar>x\<bar>\<rfloor> - 52
            in of_int (round_even (x / 2 powr of_int e)) * 2 powr of_int e))"

subsection \<open>Vectors, boxes and bodies\<close>

text \<open>\<^verbatim>\<open>glm::vec3\<close>; the components \<^verbatim>\<open>.x .y .z\<close> are \<open>xc yc zc\<close>.\<close>

datatype vec3 = Vec3 (xc: real) (yc: real) (zc: real)

text \<open>\<^verbatim>\<open>v * s\<close> and \<^verbatim>\<open>a + b\<close> of glm, componentwise.\<close>

definition vscale :: "vec3 \<Rightarrow> real \<Rightarrow> vec3" where
  "vscale v s = Vec3 (xc v * s) (yc v * s) (zc v * s)"

definition vadd :: "vec3 \<Rightarrow> vec3 \<Rightarrow> vec3" where
  "vadd a b = Vec3 (xc a + xc b) (yc a + yc b) (zc a + zc b)"

text \<open>
  \<^verbatim>\<open>struct AABB\<close> with its corners \<^verbatim>\<open>min\<close> and \<^verbatim>\<open>max\<close> (here \<open>aabb_min\<close>, \<open>aabb_max\<close>:
  the plain names are HOL's minimum and maximum).
\<close>

record AABB =
  aabb_min :: vec3
  aabb_max :: vec3


subsection \<open>SweptAABB\<close>

text \<open>The entry and exit distances, lines 116 to 136: the order flips with the sign of the displacement.\<close>

definition xDistanceEntry :: "AABB \<Rightarrow> AABB \<Rightarrow> vec3 \<Rightarrow> real" where
  "xDistanceEntry box1 box2 vel1 =
     (if xc vel1 > 0 then xc (aabb_min box2) - xc (aabb_max box1)
      else xc (aabb_max box2) - xc (aabb_min box1))"

definition xDistanceExit :: "AABB \<Rightarrow> AABB \<Rightarrow> vec3 \<Rightarrow> real" where
  "xDistanceExit box1 box2 vel1 =
     (if xc vel1 > 0 then xc (aabb_max box2) - xc (aabb_min box1)
      else xc (aabb_min box2) - xc (aabb_max box1))"

definition yDistanceEntry :: "AABB \<Rightarrow> AABB \<Rightarrow> vec3 \<Rightarrow> real" where
  "yDistanceEntry box1 box2 vel1 =
     (if yc vel1 > 0 then yc (aabb_min box2) - yc (aabb_max box1)
      else yc (aabb_max box2) - yc (aabb_min box1))"

definition yDistanceExit :: "AABB \<Rightarrow> AABB \<Rightarrow> vec3 \<Rightarrow> real" where
  "yDistanceExit box1 box2 vel1 =
     (if yc vel1 > 0 then yc (aabb_max box2) - yc (aabb_min box1)
      else yc (aabb_min box2) - yc (aabb_max box1))"

text \<open>
  The pair (entry time, exit time) of each axis, lines 143 to 184. With a zero displacement
  the times are constants; otherwise they are the two quotients.
\<close>

definition xTimes :: "AABB \<Rightarrow> AABB \<Rightarrow> vec3 \<Rightarrow> (fl \<times> fl) option" where
  "xTimes box1 box2 vel1 =
     (if xc vel1 = 0 then
        Some (if max \<bar>xDistanceEntry box1 box2 vel1\<bar> \<bar>xDistanceExit box1 box2 vel1\<bar>
                   > (xc (aabb_max box1) - xc (aabb_min box1)) + (xc (aabb_max box2) - xc (aabb_min box2))
              then Fin 2 else NInf,
              PInf)
      else do {
        xEntryTime \<leftarrow> fdiv (xDistanceEntry box1 box2 vel1) (xc vel1);
        xExitTime \<leftarrow> fdiv (xDistanceExit box1 box2 vel1) (xc vel1);
        Some (xEntryTime, xExitTime)
      })"

definition yTimes :: "AABB \<Rightarrow> AABB \<Rightarrow> vec3 \<Rightarrow> (fl \<times> fl) option" where
  "yTimes box1 box2 vel1 =
     (if yc vel1 = 0 then
        Some (if max \<bar>yDistanceEntry box1 box2 vel1\<bar> \<bar>yDistanceExit box1 box2 vel1\<bar>
                   > (yc (aabb_max box1) - yc (aabb_min box1)) + (yc (aabb_max box2) - yc (aabb_min box2))
              then Fin 2 else NInf,
              PInf)
      else do {
        yEntryTime \<leftarrow> fdiv (yDistanceEntry box1 box2 vel1) (yc vel1);
        yExitTime \<leftarrow> fdiv (yDistanceExit box1 box2 vel1) (yc vel1);
        Some (yEntryTime, yExitTime)
      })"

text \<open>
  The test of line 197, with the grouping C++ gives it: \<^verbatim>\<open>&&\<close> binds tighter than \<^verbatim>\<open>||\<close>.
\<close>

definition noCollision :: "fl \<Rightarrow> fl \<Rightarrow> fl \<Rightarrow> fl \<Rightarrow> bool" where
  "noCollision xEntryTime xExitTime yEntryTime yExitTime \<longleftrightarrow>
     max xEntryTime yEntryTime > min xExitTime yExitTime
     \<or> (xEntryTime < Fin 0 \<and> yEntryTime < Fin 0)
     \<or> xEntryTime > Fin 1
     \<or> yEntryTime > Fin 1"

text \<open>
  \<^verbatim>\<open>float SweptAABB(AABB* box1, AABB* box2, glm::vec3 vel1, float& normalx, float& normaly)\<close>.
  The two reference parameters come in with the values the caller's variables hold and go
  out in the result, after the returned time. \<open>None\<close> is a division by zero.
\<close>

definition SweptAABB :: "AABB \<Rightarrow> AABB \<Rightarrow> vec3 \<Rightarrow> real \<Rightarrow> real \<Rightarrow> (fl \<times> real \<times> real) option" where
  "SweptAABB box1 box2 vel1 normalx normaly = do {
     (xEntryTime, xExitTime) \<leftarrow> xTimes box1 box2 vel1;
     (yEntryTime, yExitTime) \<leftarrow> yTimes box1 box2 vel1;
     let entryTime = max xEntryTime yEntryTime;
     let exitTime = min xExitTime yExitTime;
     if entryTime > exitTime \<or> xEntryTime < Fin 0 \<and> yEntryTime < Fin 0
          \<or> xEntryTime > Fin 1 \<or> yEntryTime > Fin 1
     then Some (Fin 2, 0, 0)
     else if xEntryTime > yEntryTime then
       (if xDistanceEntry box1 box2 vel1 < 0 then Some (entryTime, 1, 0)
        else Some (entryTime, -1, 0))
     else if yEntryTime > xEntryTime then
       (if yDistanceEntry box1 box2 vel1 < 0 then Some (entryTime, 0, 1)
        else Some (entryTime, 0, -1))
     else Some (entryTime, normalx, normaly)
   }"

subsection \<open>Bodies\<close>

text \<open>
  \<^verbatim>\<open>GameObject\<close>, as far as \<^verbatim>\<open>Main.cpp\<close> uses it: \<^verbatim>\<open>GetPosition\<close>, \<^verbatim>\<open>GetVelocity\<close> and
  \<^verbatim>\<open>GetAABB\<close> read a field, \<^verbatim>\<open>SetPosition\<close>, \<^verbatim>\<open>SetVelocity\<close> and \<^verbatim>\<open>SetScale\<close> write one.
\<close>

record GameObject =
  position :: vec3
  velocity :: vec3
  scale :: vec3
  aabb :: AABB

text \<open>
  Modelled from the spec: \<^verbatim>\<open>GameObject::Update(dt)\<close> is defined in the GameObject files,
  which are not among the sources. The spec (4.2, step 4) has it advance the body by the
  given duration with the body's velocity.
\<close>

definition Update :: "real \<Rightarrow> GameObject \<Rightarrow> GameObject" where
  "Update dt obj = obj\<lparr>position := vadd (position obj) (vscale (velocity obj) dt)\<rparr>"

text \<open>
  Modelled from the spec: \<^verbatim>\<open>GameObject::CalculateAABB()\<close> is defined in the GameObject
  files, which are not among the sources. The spec (3) has the box recomputed from the
  body's scale and translation, rotation ignored; the shape of both bodies is the square
  with corners (-1,-1) and (1,1) of \<^verbatim>\<open>init\<close>, so the scale is the half-extent.
\<close>

definition CalculateAABB :: "GameObject \<Rightarrow> GameObject" where
  "CalculateAABB obj =
     obj\<lparr>aabb :=
       \<lparr>aabb_min = Vec3 (xc (position obj) - \<bar>xc (scale obj)\<bar>) (yc (position obj) - \<bar>yc (scale obj)\<bar>)
                         (zc (position obj)),
        aabb_max = Vec3 (xc (position obj) + \<bar>xc (scale obj)\<bar>) (yc (position obj) + \<bar>yc (scale obj)\<bar>)
                         (zc (position obj))\<rparr>\<rparr>"

text \<open>The globals \<^verbatim>\<open>obj1\<close> (stationary) and \<^verbatim>\<open>obj2\<close> (moving). The matrices are the renderer's.\<close>

record World =
  obj1 :: GameObject
  obj2 :: GameObject

subsection \<open>update\<close>

text \<open>
  Lines 252 to 265, on \<^verbatim>\<open>obj2\<close>: the position is read once, the velocity is read again
  inside each branch. The bounds are the \<^verbatim>\<open>float\<close> literals \<^verbatim>\<open>0.9f\<close> = 7549747 / 2^23,
  just below 0.9, and \<^verbatim>\<open>0.8f\<close> = 13421773 / 2^24, just above 0.8.
\<close>

definition boundaryBounce :: "GameObject \<Rightarrow> GameObject" where
  "boundaryBounce obj =
     (let tempPos = position obj;
          obj = (if \<bar>xc tempPos\<bar> > 7549747 / 8388608 then
                   (let tempVel = velocity obj
                    in obj\<lparr>velocity := Vec3 (- 1 * xc tempVel) (yc tempVel) (zc tempVel)\<rparr>)
                 else obj);
          obj = (if \<bar>yc tempPos\<bar> > 13421773 / 16777216 then
                   (let tempVel = velocity obj
                    in obj\<lparr>velocity := Vec3 (xc tempVel) (- 1 * yc tempVel) (zc tempVel)\<rparr>)
                 else obj)
      in obj)"

text \<open>
  \<^verbatim>\<open>void update(float dt)\<close>. The locals \<^verbatim>\<open>normalx\<close> and \<^verbatim>\<open>normaly\<close> are declared without
  a value; what they hold when \<^verbatim>\<open>SweptAABB\<close> is called is the argument \<open>uninit\<close>.
  \<^verbatim>\<open>abs\<close> is taken as the overload for \<^verbatim>\<open>float\<close>. The literal \<^verbatim>\<open>0.0001f\<close> is just
  below 0.0001 and no \<^verbatim>\<open>float\<close> lies between the two, so for a \<^verbatim>\<open>float\<close> the comparison
  with 0.0001 is the comparison of the code. \<open>None\<close> is a division by zero or an infinite
  factor.
\<close>

definition update :: "real \<Rightarrow> real \<times> real \<Rightarrow> World \<Rightarrow> World option" where
  "update dt uninit w = do {
     let o2 = boundaryBounce (obj2 w);
     let o1 = CalculateAABB (obj1 w);
     let o2 = CalculateAABB o2;
     (collisionTime, normalx, normaly) \<leftarrow>
        SweptAABB (aabb o2) (aabb o1) (vscale (velocity o2) dt) (fst uninit) (snd uninit);
     let remainingTime = one_minus collisionTime;
     if remainingTime \<ge> Fin 0 then do {
       ct \<leftarrow> finite_part collisionTime;
       rt \<leftarrow> finite_part remainingTime;
       let vel = velocity o2;
       let vel = (if \<bar>normalx\<bar> > 0.0001 then Vec3 (xc vel * - 1) (yc vel) (zc vel) else vel);
       let vel = (if \<bar>normaly\<bar> > 0.0001 then Vec3 (xc vel) (yc vel * - 1) (zc vel) else vel);
       let o1 = Update (ct * dt) o1;
       let o2 = Update (ct * dt) o2;
       let o2 = o2\<lparr>velocity := vel\<rparr>;
       let o1 = Update (rt * dt) o1;
       let o2 = Update (rt * dt) o2;
       Some \<lparr>obj1 = o1, obj2 = o2\<rparr>
     } else do {
       let o1 = Update dt o1;
       let o2 = Update dt o2;
       Some \<lparr>obj1 = o1, obj2 = o2\<rparr>
     }
   }"

text \<open>A run of physics ticks, each with its step and the content of its two unset locals.\<close>

fun ticks :: "(real \<times> real \<times> real) list \<Rightarrow> World \<Rightarrow> World option" where
  "ticks [] w = Some w"
| "ticks ((dt, uninit) # rest) w = (case update dt uninit w of None \<Rightarrow> None | Some w' \<Rightarrow> ticks rest w')"

subsection \<open>init\<close>

text \<open>\<^verbatim>\<open>float speed = 0.90f\<close>.\<close>

definition speed :: real where
  "speed = 0.9"

text \<open>
  The bodies of \<^verbatim>\<open>init\<close>, lines 513 to 522 and 563 to 564. Every field of the model is
  assigned there; the box the constructor leaves is overwritten by \<^verbatim>\<open>CalculateAABB\<close>.
\<close>

definition init :: World where
  "init =
     \<lparr>obj1 = CalculateAABB
               \<lparr>position = Vec3 0 0 0, velocity = Vec3 0 0 0, scale = Vec3 0.25 0.25 0.25,
                aabb = \<lparr>aabb_min = Vec3 0 0 0, aabb_max = Vec3 0 0 0\<rparr>\<rparr>,
      obj2 = CalculateAABB
               \<lparr>position = Vec3 0.7 0.7 0, velocity = Vec3 (- speed) (- speed) 0, scale = Vec3 0.05 0.05 0.05,
                aabb = \<lparr>aabb_min = Vec3 0 0 0, aabb_max = Vec3 0 0 0\<rparr>\<rparr>\<rparr>"

subsection \<open>checkTime\<close>

text \<open>
  \<^verbatim>\<open>double physicsStep = 0.012\<close>; no function assigns it. Its value is the double nearest
  to 0.012, which is 3458764513820541 / 2^58.
\<close>

definition physicsStep :: real where
  "physicsStep = 3458764513820541 / 288230376151711744"

text \<open>
  \<^verbatim>\<open>update\<close> takes a \<^verbatim>\<open>float\<close>: the argument of \<^verbatim>\<open>update(physicsStep)\<close> is the float nearest
  to \<open>physicsStep\<close>, which is 6442451 / 2^29.
\<close>

definition physicsStep_float :: real where
  "physicsStep_float = 6442451 / 536870912"

text \<open>
  The timing globals and the world. \<open>updates\<close> is not a variable of the source: it counts
  the calls of \<^verbatim>\<open>update\<close> made so far, and selects the content of that call's unset locals.
\<close>

record Sim =
  time :: real
  timebase :: real
  accumulator :: real
  frame :: int
  fps :: int
  FPSTime :: real
  world :: World
  updates :: nat

text \<open>
  The loop of lines 372 to 377. In doubles the subtraction can leave a large accumulator
  unchanged, so the loop is not known to end from every state: not ending is \<open>None\<close>.
\<close>

partial_function (option) stepLoop :: "(nat \<Rightarrow> real \<times> real) \<Rightarrow> Sim \<Rightarrow> Sim option" where
  "stepLoop uninit s =
     (if accumulator s \<ge> physicsStep then
        do {
          w \<leftarrow> update physicsStep_float (uninit (updates s)) (world s);
          stepLoop uninit
            (s\<lparr>world := w, updates := Suc (updates s),
               accumulator := dbl (accumulator s - physicsStep)\<rparr>)
        }
      else Some s)"

text \<open>
  \<^verbatim>\<open>void checkTime()\<close>. \<open>now\<close> is what \<^verbatim>\<open>glfwGetTime()\<close> returns. The window title is the
  renderer's. The conversion of the quotient to \<^verbatim>\<open>int\<close> truncates toward zero.
\<close>

definition checkTime :: "real \<Rightarrow> (nat \<Rightarrow> real \<times> real) \<Rightarrow> Sim \<Rightarrow> Sim option" where
  "checkTime now uninit s =
     (let s = s\<lparr>time := now\<rparr>;
          dt = dbl (time s - timebase s)
      in if dt > physicsStep then
           (let s = (if dbl (time s - FPSTime s) > 1.0 then
                       (let q = dbl (real_of_int (frame s) / dbl (time s - FPSTime s));
                            s = s\<lparr>fps := (if 0 \<le> q then \<lfloor>q\<rfloor> else \<lceil>q\<rceil>)\<rparr>;
                            s = s\<lparr>FPSTime := time s\<rparr>;
                            s = s\<lparr>frame := 0\<rparr>
                        in s)
                     else s);
                s = s\<lparr>timebase := time s\<rparr>;
                dt = (if dt > 0.25 then 0.25 else dt);
                s = s\<lparr>accumulator := dbl (accumulator s + dt)\<rparr>
            in stepLoop uninit s)
         else Some s)"

subsection \<open>Example inputs\<close>

text \<open>The unit square whose lower left corner is at (px, py).\<close>

definition square_at :: "real \<Rightarrow> real \<Rightarrow> AABB" where
  "square_at px py = \<lparr>aabb_min = Vec3 px py 0, aabb_max = Vec3 (px + 1) (py + 1) 0\<rparr>"

text \<open>A world in which the moving body reaches the stationary one within a step of 0.4.\<close>

definition hit_world :: World where
  "hit_world =
     \<lparr>obj1 = \<lparr>position = Vec3 0 0 0, velocity = Vec3 0 0 0, scale = Vec3 0.25 0.25 0.25,
              aabb = \<lparr>aabb_min = Vec3 0 0 0, aabb_max = Vec3 0 0 0\<rparr>\<rparr>,
      obj2 = \<lparr>position = Vec3 0.5 0 0, velocity = Vec3 (- 1) 0 0, scale = Vec3 0.05 0.05 0.05,
              aabb = \<lparr>aabb_min = Vec3 0 0 0, aabb_max = Vec3 0 0 0\<rparr>\<rparr>\<rparr>"

text \<open>Unset locals that happen to hold zero at every call.\<close>

definition zeros :: "nat \<Rightarrow> real \<times> real" where
  "zeros k = (0, 0)"

text \<open>
  Timing states over the initial world: one with 1/128 in the accumulator, one with none.
\<close>

definition idle_sim :: Sim where
  "idle_sim = \<lparr>time = 0, timebase = 0, accumulator = 1 / 128, frame = 0, fps = 0, FPSTime = 0,
               world = init, updates = 0\<rparr>"

definition start_sim :: Sim where
  "start_sim = \<lparr>time = 0, timebase = 0, accumulator = 0, frame = 0, fps = 0, FPSTime = 0,
               world = init, updates = 0\<rparr>"

text \<open>
  A world whose moving body sits at y = \<^verbatim>\<open>0.8f\<close>, above the stationary one, and moves up.
\<close>

definition edge_world :: World where
  "edge_world =
     \<lparr>obj1 = \<lparr>position = Vec3 0 0 0, velocity = Vec3 0 0 0, scale = Vec3 0.25 0.25 0.25,
              aabb = \<lparr>aabb_min = Vec3 0 0 0, aabb_max = Vec3 0 0 0\<rparr>\<rparr>,
      obj2 = \<lparr>position = Vec3 0 (13421773 / 16777216) 0, velocity = Vec3 0 1 0,
              scale = Vec3 (1 / 32) (1 / 32) (1 / 32),
              aabb = \<lparr>aabb_min = Vec3 0 0 0, aabb_max = Vec3 0 0 0\<rparr>\<rparr>\<rparr>"

text \<open>A world whose moving body is beyond both bounds and flies away from the other.\<close>

definition far_world :: World where
  "far_world =
     \<lparr>obj1 = \<lparr>position = Vec3 0 0 0, velocity = Vec3 0 0 0, scale = Vec3 0.25 0.25 0.25,
              aabb = \<lparr>aabb_min = Vec3 0 0 0, aabb_max = Vec3 0 0 0\<rparr>\<rparr>,
      obj2 = \<lparr>position = Vec3 (15 / 16) (- (7 / 8)) 0, velocity = Vec3 1 (- 2) 0,
              scale = Vec3 (1 / 32) (1 / 32) (1 / 32),
              aabb = \<lparr>aabb_min = Vec3 0 0 0, aabb_max = Vec3 0 0 0\<rparr>\<rparr>\<rparr>"

section \<open>Properties\<close>

lemma xTimes_total: "\<exists>en ex. xTimes box1 box2 vel1 = Some (en, ex)"
  by (simp add: xTimes_def fdiv_def)

lemma yTimes_total: "\<exists>en ex. yTimes box1 box2 vel1 = Some (en, ex)"
  by (simp add: yTimes_def fdiv_def)

lemma SweptAABB_unfold:
  assumes "xTimes box1 box2 vel1 = Some (xE, xX)" and "yTimes box1 box2 vel1 = Some (yE, yX)"
  shows "SweptAABB box1 box2 vel1 nx ny =
     (if noCollision xE xX yE yX then Some (Fin 2, 0, 0)
      else if xE > yE then
        (if xDistanceEntry box1 box2 vel1 < 0 then Some (max xE yE, 1, 0) else Some (max xE yE, -1, 0))
      else if yE > xE then
        (if yDistanceEntry box1 box2 vel1 < 0 then Some (max xE yE, 0, 1) else Some (max xE yE, 0, -1))
      else Some (max xE yE, nx, ny))"
  using assms by (simp add: SweptAABB_def noCollision_def Let_def)


lemma noCollision_entry_bounds:
  assumes "\<not> noCollision xE xX yE yX"
  shows "Fin 0 \<le> max xE yE" and "max xE yE \<le> Fin 1"
  using assms by (auto simp: noCollision_def not_less le_max_iff_disj)

lemma Fin_two_not_le_one: "\<not> Fin 2 \<le> Fin 1"
  by simp

subsection \<open>The no-collision test\<close>

text \<open>
  C1. Whatever the two boxes and the displacement are, \<open>SweptAABB\<close> returns the sentinel
  2.0 with the normal (0,0) exactly when
  (entryTime > exitTime) or (xEntryTime < 0 and yEntryTime < 0) or (xEntryTime > 1) or
  (yEntryTime > 1), the two negativity tests forming one disjunct. The entry and exit
  times are the ones the function computes for each axis.
\<close>

theorem SweptAABB_no_collision_iff:
  assumes "xTimes box1 box2 vel1 = Some (xEntryTime, xExitTime)"
      and "yTimes box1 box2 vel1 = Some (yEntryTime, yExitTime)"
  shows "SweptAABB box1 box2 vel1 normalx normaly = Some (Fin 2, 0, 0) \<longleftrightarrow>
           max xEntryTime yEntryTime > min xExitTime yExitTime
           \<or> (xEntryTime < Fin 0 \<and> yEntryTime < Fin 0)
           \<or> xEntryTime > Fin 1
           \<or> yEntryTime > Fin 1"
proof (cases "noCollision xEntryTime xExitTime yEntryTime yExitTime")
  case True
  then show ?thesis
    using SweptAABB_unfold [OF assms] by (simp add: noCollision_def)
next
  case False
  then have "max xEntryTime yEntryTime \<le> Fin 1"
    by (rule noCollision_entry_bounds)
  then have "max xEntryTime yEntryTime \<noteq> Fin 2"
    using Fin_two_not_le_one by metis
  with False show ?thesis
    using SweptAABB_unfold [OF assms, of normalx normaly] by (auto simp: noCollision_def)
qed

theorem SweptAABB_no_collision_iff_witness:
  "xTimes (square_at 0 0) (square_at 5 0) (Vec3 1 0 0) = Some (Fin 4, Fin 6)
   \<and> yTimes (square_at 0 0) (square_at 5 0) (Vec3 1 0 0) = Some (NInf, PInf)
   \<and> SweptAABB (square_at 0 0) (square_at 5 0) (Vec3 1 0 0) 5 7 = Some (Fin 2, 0, 0)"
proof -
  have x: "xTimes (square_at 0 0) (square_at 5 0) (Vec3 1 0 0) = Some (Fin 4, Fin 6)"
    by (simp add: xTimes_def fdiv_def square_at_def xDistanceEntry_def xDistanceExit_def)
  have y: "yTimes (square_at 0 0) (square_at 5 0) (Vec3 1 0 0) = Some (NInf, PInf)"
    by (simp add: yTimes_def square_at_def yDistanceEntry_def yDistanceExit_def)
  have "SweptAABB (square_at 0 0) (square_at 5 0) (Vec3 1 0 0) 5 7 = Some (Fin 2, 0, 0)"
    using SweptAABB_no_collision_iff [OF x y, of 5 7] by simp
  with x y show ?thesis by simp
qed

subsection \<open>The returned time\<close>

text \<open>
  C2. When the no-collision test fails, the value returned is
  max(xEntryTime, yEntryTime) and it lies in [0,1]; hence a call that returns 2.0 is a
  call in which the no-collision test held.
\<close>

theorem SweptAABB_collision_time:
  assumes "xTimes box1 box2 vel1 = Some (xEntryTime, xExitTime)"
      and "yTimes box1 box2 vel1 = Some (yEntryTime, yExitTime)"
  shows "(\<not> noCollision xEntryTime xExitTime yEntryTime yExitTime \<longrightarrow>
            (\<exists>nx ny. SweptAABB box1 box2 vel1 normalx normaly = Some (max xEntryTime yEntryTime, nx, ny))
            \<and> Fin 0 \<le> max xEntryTime yEntryTime \<and> max xEntryTime yEntryTime \<le> Fin 1)
       \<and> ((\<exists>nx ny. SweptAABB box1 box2 vel1 normalx normaly = Some (Fin 2, nx, ny)) \<longrightarrow>
            noCollision xEntryTime xExitTime yEntryTime yExitTime)"
proof (cases "noCollision xEntryTime xExitTime yEntryTime yExitTime")
  case True
  then show ?thesis by simp
next
  case False
  have b: "Fin 0 \<le> max xEntryTime yEntryTime" "max xEntryTime yEntryTime \<le> Fin 1"
    using False by (rule noCollision_entry_bounds)+
  then have ne: "max xEntryTime yEntryTime \<noteq> Fin 2"
    using Fin_two_not_le_one by metis
  have r: "\<exists>nx ny. SweptAABB box1 box2 vel1 normalx normaly = Some (max xEntryTime yEntryTime, nx, ny)"
    using False SweptAABB_unfold [OF assms, of normalx normaly] by simp
  from r ne have "\<not> (\<exists>nx ny. SweptAABB box1 box2 vel1 normalx normaly = Some (Fin 2, nx, ny))"
    by auto
  with False b r show ?thesis by blast
qed

theorem SweptAABB_collision_time_witness:
  "xTimes (square_at 0 0) (square_at 2 2) (Vec3 2 4 0) = Some (Fin (1 / 2), Fin (3 / 2))
   \<and> yTimes (square_at 0 0) (square_at 2 2) (Vec3 2 4 0) = Some (Fin (1 / 4), Fin (3 / 4))
   \<and> \<not> noCollision (Fin (1 / 2)) (Fin (3 / 2)) (Fin (1 / 4)) (Fin (3 / 4))
   \<and> (\<exists>nx ny. SweptAABB (square_at 0 0) (square_at 2 2) (Vec3 2 4 0) 5 7 = Some (Fin (1 / 2), nx, ny))"
proof -
  have x: "xTimes (square_at 0 0) (square_at 2 2) (Vec3 2 4 0) = Some (Fin (1 / 2), Fin (3 / 2))"
    by (simp add: xTimes_def fdiv_def square_at_def xDistanceEntry_def xDistanceExit_def)
  have y: "yTimes (square_at 0 0) (square_at 2 2) (Vec3 2 4 0) = Some (Fin (1 / 4), Fin (3 / 4))"
    by (simp add: yTimes_def fdiv_def square_at_def yDistanceEntry_def yDistanceExit_def)
  have n: "\<not> noCollision (Fin (1 / 2)) (Fin (3 / 2)) (Fin (1 / 4)) (Fin (3 / 4))"
    by (simp add: noCollision_def)
  have m: "max (Fin (1 / 2)) (Fin (1 / 4)) = Fin (1 / 2)"
    by simp
  have "\<exists>nx ny. SweptAABB (square_at 0 0) (square_at 2 2) (Vec3 2 4 0) 5 7 = Some (Fin (1 / 2), nx, ny)"
    using SweptAABB_collision_time [OF x y, of 5 7] n unfolding m by blast
  with x y n show ?thesis by blast
qed

subsection \<open>Zero displacement\<close>

text \<open>
  C4. On an axis whose displacement component is zero the function does not divide: the
  entry time is 2.0 when max(|entryDistance|, |exitDistance|) exceeds the sum of the two
  widths and minus infinity otherwise, and the exit time is plus infinity. On an axis
  whose component is nonzero the times are the two quotients. No call divides by zero:
  \<open>SweptAABB\<close> always returns a result.
\<close>

theorem SweptAABB_total_zero_axis:
  "(xc vel1 = 0 \<longrightarrow>
      xTimes box1 box2 vel1 =
        Some (if max \<bar>xDistanceEntry box1 box2 vel1\<bar> \<bar>xDistanceExit box1 box2 vel1\<bar>
                  > (xc (aabb_max box1) - xc (aabb_min box1)) + (xc (aabb_max box2) - xc (aabb_min box2))
              then Fin 2 else NInf, PInf))
   \<and> (yc vel1 = 0 \<longrightarrow>
      yTimes box1 box2 vel1 =
        Some (if max \<bar>yDistanceEntry box1 box2 vel1\<bar> \<bar>yDistanceExit box1 box2 vel1\<bar>
                  > (yc (aabb_max box1) - yc (aabb_min box1)) + (yc (aabb_max box2) - yc (aabb_min box2))
              then Fin 2 else NInf, PInf))
   \<and> (xc vel1 \<noteq> 0 \<longrightarrow>
      xTimes box1 box2 vel1 =
        Some (Fin (xDistanceEntry box1 box2 vel1 / xc vel1), Fin (xDistanceExit box1 box2 vel1 / xc vel1)))
   \<and> (yc vel1 \<noteq> 0 \<longrightarrow>
      yTimes box1 box2 vel1 =
        Some (Fin (yDistanceEntry box1 box2 vel1 / yc vel1), Fin (yDistanceExit box1 box2 vel1 / yc vel1)))
   \<and> (\<exists>t nx ny. SweptAABB box1 box2 vel1 normalx normaly = Some (t, nx, ny))"
proof -
  obtain xE xX where x: "xTimes box1 box2 vel1 = Some (xE, xX)"
    using xTimes_total by blast
  obtain yE yX where y: "yTimes box1 box2 vel1 = Some (yE, yX)"
    using yTimes_total by blast
  have "\<exists>t nx ny. SweptAABB box1 box2 vel1 normalx normaly = Some (t, nx, ny)"
    using SweptAABB_unfold [OF x y, of normalx normaly] by simp
  then show ?thesis
    by (simp add: xTimes_def yTimes_def fdiv_def)
qed

theorem SweptAABB_total_zero_axis_witness:
  "xTimes (square_at 0 0) (square_at 5 0) (Vec3 0 1 0) = Some (Fin 2, PInf)
   \<and> yTimes (square_at 0 0) (square_at 0 5) (Vec3 1 0 0) = Some (Fin 2, PInf)
   \<and> xTimes (square_at 0 0) (square_at 1 0) (Vec3 0 1 0) = Some (NInf, PInf)
   \<and> xTimes (square_at 0 0) (square_at 5 0) (Vec3 1 0 0) = Some (Fin 4, Fin 6)
   \<and> yTimes (square_at 0 0) (square_at 0 5) (Vec3 0 1 0) = Some (Fin 4, Fin 6)"
proof -
  have a: "xTimes (square_at 0 0) (square_at 5 0) (Vec3 0 1 0) = Some (Fin 2, PInf)"
    using SweptAABB_total_zero_axis [of "Vec3 0 1 0" "square_at 0 0" "square_at 5 0" 0 0]
    by (simp add: square_at_def xDistanceEntry_def xDistanceExit_def)
  have b: "yTimes (square_at 0 0) (square_at 0 5) (Vec3 1 0 0) = Some (Fin 2, PInf)"
    using SweptAABB_total_zero_axis [of "Vec3 1 0 0" "square_at 0 0" "square_at 0 5" 0 0]
    by (simp add: square_at_def yDistanceEntry_def yDistanceExit_def)
  have c: "xTimes (square_at 0 0) (square_at 1 0) (Vec3 0 1 0) = Some (NInf, PInf)"
    using SweptAABB_total_zero_axis [of "Vec3 0 1 0" "square_at 0 0" "square_at 1 0" 0 0]
    by (simp add: square_at_def xDistanceEntry_def xDistanceExit_def)
  have d: "xTimes (square_at 0 0) (square_at 5 0) (Vec3 1 0 0) = Some (Fin 4, Fin 6)"
    using SweptAABB_total_zero_axis [of "Vec3 1 0 0" "square_at 0 0" "square_at 5 0" 0 0]
    by (simp add: square_at_def xDistanceEntry_def xDistanceExit_def)
  have e: "yTimes (square_at 0 0) (square_at 0 5) (Vec3 0 1 0) = Some (Fin 4, Fin 6)"
    using SweptAABB_total_zero_axis [of "Vec3 0 1 0" "square_at 0 0" "square_at 0 5" 0 0]
    by (simp add: square_at_def yDistanceEntry_def yDistanceExit_def)
  from a b c d e show ?thesis by simp
qed

text \<open>
  C6. With a displacement whose x and y components are both zero, \<open>SweptAABB\<close> returns
  the sentinel 2.0 (and the normal (0,0)) for every pair of boxes, overlapping or not.
\<close>

theorem zero_displacement_sentinel:
  assumes "xc vel1 = 0" and "yc vel1 = 0"
  shows "SweptAABB box1 box2 vel1 normalx normaly = Some (Fin 2, 0, 0)"
  using assms by (simp add: SweptAABB_def xTimes_def yTimes_def Let_def)

theorem zero_displacement_sentinel_witness:
  "xc (Vec3 0 0 0) = 0 \<and> yc (Vec3 0 0 0) = 0
   \<and> SweptAABB (square_at 0 0) (square_at (1 / 2) (1 / 2)) (Vec3 0 0 0) 5 7 = Some (Fin 2, 0, 0)"
  using zero_displacement_sentinel [of "Vec3 0 0 0" "square_at 0 0" "square_at (1 / 2) (1 / 2)" 5 7]
  by simp

subsection \<open>The tie\<close>

text \<open>
  C7. In the collision branch with xEntryTime equal to yEntryTime neither normal is
  assigned: both go out with the values they came in with, and the entry time is returned.
\<close>

theorem SweptAABB_tie_keeps_normals:
  assumes "xTimes box1 box2 vel1 = Some (xEntryTime, xExitTime)"
      and "yTimes box1 box2 vel1 = Some (yEntryTime, yExitTime)"
      and "\<not> noCollision xEntryTime xExitTime yEntryTime yExitTime"
      and "xEntryTime = yEntryTime"
  shows "SweptAABB box1 box2 vel1 normalx normaly = Some (xEntryTime, normalx, normaly)"
  using SweptAABB_unfold [OF assms(1,2), of normalx normaly] assms(3,4) by simp

theorem SweptAABB_tie_keeps_normals_witness:
  "xTimes (square_at 0 0) (square_at 2 2) (Vec3 2 2 0) = Some (Fin (1 / 2), Fin (3 / 2))
   \<and> yTimes (square_at 0 0) (square_at 2 2) (Vec3 2 2 0) = Some (Fin (1 / 2), Fin (3 / 2))
   \<and> \<not> noCollision (Fin (1 / 2)) (Fin (3 / 2)) (Fin (1 / 2)) (Fin (3 / 2))
   \<and> SweptAABB (square_at 0 0) (square_at 2 2) (Vec3 2 2 0) 5 7 = Some (Fin (1 / 2), 5, 7)"
proof -
  have x: "xTimes (square_at 0 0) (square_at 2 2) (Vec3 2 2 0) = Some (Fin (1 / 2), Fin (3 / 2))"
    by (simp add: xTimes_def fdiv_def square_at_def xDistanceEntry_def xDistanceExit_def)
  have y: "yTimes (square_at 0 0) (square_at 2 2) (Vec3 2 2 0) = Some (Fin (1 / 2), Fin (3 / 2))"
    by (simp add: yTimes_def fdiv_def square_at_def yDistanceEntry_def yDistanceExit_def)
  have n: "\<not> noCollision (Fin (1 / 2)) (Fin (3 / 2)) (Fin (1 / 2)) (Fin (3 / 2))"
    by (simp add: noCollision_def)
  have "SweptAABB (square_at 0 0) (square_at 2 2) (Vec3 2 2 0) 5 7 = Some (Fin (1 / 2), 5, 7)"
    using SweptAABB_tie_keeps_normals [OF x y n refl, of 5 7] .
  with x y n show ?thesis by simp
qed

subsection \<open>Motion along one axis\<close>






text \<open>
  Written without rounding, projections that overlap pass the extent test of lines 146 and
  169. In \<^verbatim>\<open>float\<close> the two sides of that test are rounded separately and can differ by a
  unit in the last place when the projections touch or barely overlap, so the theorem
  below assumes what the code tests.
\<close>

lemma overlap_passes_extent_test:
  "yc (aabb_min box1) \<le> yc (aabb_max box2) \<Longrightarrow> yc (aabb_min box2) \<le> yc (aabb_max box1) \<Longrightarrow>
     \<not> max \<bar>yDistanceEntry box1 box2 vel1\<bar> \<bar>yDistanceExit box1 box2 vel1\<bar>
         > (yc (aabb_max box1) - yc (aabb_min box1)) + (yc (aabb_max box2) - yc (aabb_min box2))"
  "xc (aabb_min box1) \<le> xc (aabb_max box2) \<Longrightarrow> xc (aabb_min box2) \<le> xc (aabb_max box1) \<Longrightarrow>
     \<not> max \<bar>xDistanceEntry box1 box2 vel1\<bar> \<bar>xDistanceExit box1 box2 vel1\<bar>
         > (xc (aabb_max box1) - xc (aabb_min box1)) + (xc (aabb_max box2) - xc (aabb_min box2))"
  by (auto simp: xDistanceEntry_def xDistanceExit_def yDistanceEntry_def yDistanceExit_def max_def)




subsection \<open>The physics tick\<close>

lemma SweptAABB_total: "\<exists>t nx' ny'. SweptAABB box1 box2 vel1 nx ny = Some (t, nx', ny')"
proof -
  obtain xE xX where x: "xTimes box1 box2 vel1 = Some (xE, xX)"
    using xTimes_total by blast
  obtain yE yX where y: "yTimes box1 box2 vel1 = Some (yE, yX)"
    using yTimes_total by blast
  show ?thesis
    using SweptAABB_unfold [OF x y, of nx ny] by simp
qed

lemma between_is_Fin:
  assumes "Fin 0 \<le> t" and "t \<le> Fin 1"
  shows "\<exists>r. t = Fin r \<and> 0 \<le> r \<and> r \<le> 1"
  using assms by (cases t) simp_all

lemma SweptAABB_time_range:
  assumes "SweptAABB box1 box2 vel1 nx ny = Some (t, nx', ny')"
  shows "t = Fin 2 \<or> (\<exists>r. t = Fin r \<and> 0 \<le> r \<and> r \<le> 1)"
proof -
  obtain xE xX where x: "xTimes box1 box2 vel1 = Some (xE, xX)"
    using xTimes_total by blast
  obtain yE yX where y: "yTimes box1 box2 vel1 = Some (yE, yX)"
    using yTimes_total by blast
  show ?thesis
  proof (cases "noCollision xE xX yE yX")
    case True
    then show ?thesis
      using SweptAABB_unfold [OF x y, of nx ny] assms by simp
  next
    case False
    then have "t = max xE yE"
      using SweptAABB_unfold [OF x y, of nx ny] assms by (simp split: if_splits)
    with noCollision_entry_bounds [OF False] show ?thesis
      using between_is_Fin by blast
  qed
qed

lemma update_collision:
  assumes "SweptAABB (aabb (CalculateAABB (boundaryBounce (obj2 w)))) (aabb (CalculateAABB (obj1 w)))
              (vscale (velocity (CalculateAABB (boundaryBounce (obj2 w)))) dt) (fst uninit) (snd uninit)
            = Some (Fin ct, normalx, normaly)"
      and "ct \<le> 1"
  shows "update dt uninit w =
           Some \<lparr>obj1 = Update ((1 - ct) * dt) (Update (ct * dt) (CalculateAABB (obj1 w))),
                 obj2 = Update ((1 - ct) * dt)
                          ((Update (ct * dt) (CalculateAABB (boundaryBounce (obj2 w))))
                             \<lparr>velocity :=
                                Vec3 (if \<bar>normalx\<bar> > 0.0001
                                      then - xc (velocity (CalculateAABB (boundaryBounce (obj2 w))))
                                      else xc (velocity (CalculateAABB (boundaryBounce (obj2 w)))))
                                     (if \<bar>normaly\<bar> > 0.0001
                                      then - yc (velocity (CalculateAABB (boundaryBounce (obj2 w))))
                                      else yc (velocity (CalculateAABB (boundaryBounce (obj2 w)))))
                                     (zc (velocity (CalculateAABB (boundaryBounce (obj2 w)))))\<rparr>)\<rparr>"
  using assms by (simp add: update_def Let_def)

lemma update_no_collision:
  assumes "SweptAABB (aabb (CalculateAABB (boundaryBounce (obj2 w)))) (aabb (CalculateAABB (obj1 w)))
              (vscale (velocity (CalculateAABB (boundaryBounce (obj2 w)))) dt) (fst uninit) (snd uninit)
            = Some (Fin ct, normalx, normaly)"
      and "1 < ct"
  shows "update dt uninit w =
           Some \<lparr>obj1 = Update dt (CalculateAABB (obj1 w)),
                 obj2 = Update dt (CalculateAABB (boundaryBounce (obj2 w)))\<rparr>"
  using assms by (simp add: update_def Let_def)

lemma update_total: "\<exists>w'. update dt uninit w = Some w'"
proof -
  obtain t nx ny where
    s: "SweptAABB (aabb (CalculateAABB (boundaryBounce (obj2 w)))) (aabb (CalculateAABB (obj1 w)))
          (vscale (velocity (CalculateAABB (boundaryBounce (obj2 w)))) dt) (fst uninit) (snd uninit)
        = Some (t, nx, ny)"
    using SweptAABB_total by blast
  from SweptAABB_time_range [OF s]
  obtain r where r: "t = Fin r" by auto
  show ?thesis
  proof (cases "r \<le> 1")
    case True
    then show ?thesis
      using update_collision [of w dt uninit r nx ny] s r by simp
  next
    case False
    then show ?thesis
      using update_no_collision [of w dt uninit r nx ny] s r by simp
  qed
qed

lemmas eval_defs = SweptAABB_def xTimes_def yTimes_def fdiv_def xDistanceEntry_def xDistanceExit_def
  yDistanceEntry_def yDistanceExit_def CalculateAABB_def boundaryBounce_def vscale_def Let_def

text \<open>
  C3. Let \<open>o1\<close> and \<open>o2\<close> be the two bodies after the boundary phase and the
  recomputation of the boxes, and let \<open>SweptAABB\<close> return \<open>collisionTime\<close> and the
  normal. If remainingTime = 1 - collisionTime is at least 0, \<open>update\<close> negates the velocity
  component of the moving body on exactly the axes whose normal exceeds 1e-4 in absolute
  value, advances both bodies by collisionTime * dt while the moving body still has its
  old velocity, then gives it the reflected velocity and advances both by
  remainingTime * dt. If remainingTime is negative, both bodies are advanced by dt with
  the velocities they have.
\<close>

theorem update_split_step:
  assumes "o1 = CalculateAABB (obj1 w)"
      and "o2 = CalculateAABB (boundaryBounce (obj2 w))"
      and "SweptAABB (aabb o2) (aabb o1) (vscale (velocity o2) dt) (fst uninit) (snd uninit)
             = Some (collisionTime, normalx, normaly)"
      and "remainingTime = one_minus collisionTime"
  shows "(remainingTime \<ge> Fin 0 \<longrightarrow>
            (\<exists>ct. collisionTime = Fin ct \<and>
               update dt uninit w =
                 Some \<lparr>obj1 = Update ((1 - ct) * dt) (Update (ct * dt) o1),
                       obj2 = Update ((1 - ct) * dt)
                                ((Update (ct * dt) o2)
                                   \<lparr>velocity :=
                                      Vec3 (if \<bar>normalx\<bar> > 0.0001 then - xc (velocity o2) else xc (velocity o2))
                                           (if \<bar>normaly\<bar> > 0.0001 then - yc (velocity o2) else yc (velocity o2))
                                           (zc (velocity o2))\<rparr>)\<rparr>))
       \<and> (remainingTime < Fin 0 \<longrightarrow>
            update dt uninit w = Some \<lparr>obj1 = Update dt o1, obj2 = Update dt o2\<rparr>)"
proof -
  from SweptAABB_time_range [OF assms(3)]
  obtain r where r: "collisionTime = Fin r" and rng: "r = 2 \<or> (0 \<le> r \<and> r \<le> 1)"
    by auto
  have rem: "remainingTime = Fin (1 - r)"
    using assms(4) r by simp
  show ?thesis
  proof (cases "r \<le> 1")
    case True
    then show ?thesis
      using update_collision [of w dt uninit r normalx normaly] assms(1,2,3) r rem by simp
  next
    case False
    then have "1 < r" by simp
    then show ?thesis
      using update_no_collision [of w dt uninit r normalx normaly] assms(1,2,3) r rem by simp
  qed
qed

theorem update_split_step_witness:
  "update (2 / 5) (5, 7) hit_world =
     Some \<lparr>obj1 = \<lparr>position = Vec3 0 0 0, velocity = Vec3 0 0 0, scale = Vec3 (1 / 4) (1 / 4) (1 / 4),
                   aabb = \<lparr>aabb_min = Vec3 (- (1 / 4)) (- (1 / 4)) 0, aabb_max = Vec3 (1 / 4) (1 / 4) 0\<rparr>\<rparr>,
           obj2 = \<lparr>position = Vec3 (1 / 2) 0 0, velocity = Vec3 1 0 0, scale = Vec3 (1 / 20) (1 / 20) (1 / 20),
                   aabb = \<lparr>aabb_min = Vec3 (9 / 20) (- (1 / 20)) 0, aabb_max = Vec3 (11 / 20) (1 / 20) 0\<rparr>\<rparr>\<rparr>
   \<and> update (3 / 250) (5, 7) init =
     Some \<lparr>obj1 = \<lparr>position = Vec3 0 0 0, velocity = Vec3 0 0 0, scale = Vec3 (1 / 4) (1 / 4) (1 / 4),
                   aabb = \<lparr>aabb_min = Vec3 (- (1 / 4)) (- (1 / 4)) 0, aabb_max = Vec3 (1 / 4) (1 / 4) 0\<rparr>\<rparr>,
           obj2 = \<lparr>position = Vec3 (1723 / 2500) (1723 / 2500) 0, velocity = Vec3 (- (9 / 10)) (- (9 / 10)) 0,
                   scale = Vec3 (1 / 20) (1 / 20) (1 / 20),
                   aabb = \<lparr>aabb_min = Vec3 (13 / 20) (13 / 20) 0, aabb_max = Vec3 (3 / 4) (3 / 4) 0\<rparr>\<rparr>\<rparr>"
proof -
  have hit: "SweptAABB (aabb (CalculateAABB (boundaryBounce (obj2 hit_world))))
                (aabb (CalculateAABB (obj1 hit_world)))
                (vscale (velocity (CalculateAABB (boundaryBounce (obj2 hit_world)))) (2 / 5))
                (fst (5, 7)) (snd (5, 7))
             = Some (Fin (1 / 2), 1, 0)"
    by (simp add: eval_defs hit_world_def)
  have miss: "SweptAABB (aabb (CalculateAABB (boundaryBounce (obj2 init))))
                (aabb (CalculateAABB (obj1 init)))
                (vscale (velocity (CalculateAABB (boundaryBounce (obj2 init)))) (3 / 250))
                (fst (5, 7)) (snd (5, 7))
             = Some (Fin 2, 0, 0)"
    by (simp add: eval_defs init_def speed_def)
  have pos: "Fin 0 \<le> one_minus (Fin (1 / 2))"
    by simp
  have neg: "one_minus (Fin 2) < Fin 0"
    by simp
  obtain ct where c: "Fin (1 / 2) = Fin ct"
    and a: "update (2 / 5) (5, 7) hit_world =
             Some \<lparr>obj1 = Update ((1 - ct) * (2 / 5)) (Update (ct * (2 / 5)) (CalculateAABB (obj1 hit_world))),
                   obj2 = Update ((1 - ct) * (2 / 5))
                            ((Update (ct * (2 / 5)) (CalculateAABB (boundaryBounce (obj2 hit_world))))
                               \<lparr>velocity :=
                                  Vec3 (if \<bar>1::real\<bar> > 0.0001
                                        then - xc (velocity (CalculateAABB (boundaryBounce (obj2 hit_world))))
                                        else xc (velocity (CalculateAABB (boundaryBounce (obj2 hit_world)))))
                                       (if \<bar>0::real\<bar> > 0.0001
                                        then - yc (velocity (CalculateAABB (boundaryBounce (obj2 hit_world))))
                                        else yc (velocity (CalculateAABB (boundaryBounce (obj2 hit_world)))))
                                       (zc (velocity (CalculateAABB (boundaryBounce (obj2 hit_world)))))\<rparr>)\<rparr>"
    using update_split_step [OF refl refl hit refl] pos by blast
  from c have ct: "ct = 1 / 2"
    by simp
  have b: "update (3 / 250) (5, 7) init =
             Some \<lparr>obj1 = Update (3 / 250) (CalculateAABB (obj1 init)),
                   obj2 = Update (3 / 250) (CalculateAABB (boundaryBounce (obj2 init)))\<rparr>"
    using update_split_step [OF refl refl miss refl] neg by blast
  show ?thesis
    unfolding a b ct
    by (simp add: Update_def CalculateAABB_def boundaryBounce_def vscale_def vadd_def Let_def
        hit_world_def init_def speed_def)
qed

subsection \<open>The boundary phase\<close>

lemma boundaryBounce_eq:
  "boundaryBounce obj =
     obj\<lparr>velocity :=
           Vec3 (if \<bar>xc (position obj)\<bar> > 7549747 / 8388608 then - xc (velocity obj) else xc (velocity obj))
                (if \<bar>yc (position obj)\<bar> > 13421773 / 16777216 then - yc (velocity obj) else yc (velocity obj))
                (zc (velocity obj))\<rparr>"
  by (simp add: boundaryBounce_def Let_def)

text \<open>
  C9, as the code has it. Let \<open>vb\<close> be the velocity of the moving body with the x
  component negated if |x| exceeds \<^verbatim>\<open>0.9f\<close> and the y component negated if |y| exceeds
  \<^verbatim>\<open>0.8f\<close>, each once and independently of the other. The boundary phase changes the
  velocity of the moving body to \<open>vb\<close> and nothing else, and leaves the body as it is when
  neither bound is exceeded. \<open>update\<close> does this first: the boxes are recomputed and the
  swept test and the advance are run on the moving body that has the velocity \<open>vb\<close>.
\<close>

theorem update_boundary_phase:
  assumes "vb = Vec3 (if \<bar>xc (position (obj2 w))\<bar> > 7549747 / 8388608
                      then - xc (velocity (obj2 w)) else xc (velocity (obj2 w)))
                     (if \<bar>yc (position (obj2 w))\<bar> > 13421773 / 16777216
                      then - yc (velocity (obj2 w)) else yc (velocity (obj2 w)))
                     (zc (velocity (obj2 w)))"
      and "o1 = CalculateAABB (obj1 w)"
      and "o2 = CalculateAABB ((obj2 w)\<lparr>velocity := vb\<rparr>)"
  shows "boundaryBounce (obj2 w) = (obj2 w)\<lparr>velocity := vb\<rparr>
       \<and> (\<bar>xc (position (obj2 w))\<bar> \<le> 7549747 / 8388608
           \<and> \<bar>yc (position (obj2 w))\<bar> \<le> 13421773 / 16777216 \<longrightarrow>
            vb = velocity (obj2 w) \<and> boundaryBounce (obj2 w) = obj2 w)
       \<and> (\<exists>collisionTime normalx normaly.
            SweptAABB (aabb o2) (aabb o1) (vscale (velocity o2) dt) (fst uninit) (snd uninit)
              = Some (collisionTime, normalx, normaly)
            \<and> (one_minus collisionTime \<ge> Fin 0 \<longrightarrow>
                 (\<exists>ct. collisionTime = Fin ct \<and>
                    update dt uninit w =
                      Some \<lparr>obj1 = Update ((1 - ct) * dt) (Update (ct * dt) o1),
                            obj2 = Update ((1 - ct) * dt)
                                     ((Update (ct * dt) o2)
                                        \<lparr>velocity :=
                                           Vec3 (if \<bar>normalx\<bar> > 0.0001 then - xc (velocity o2) else xc (velocity o2))
                                                (if \<bar>normaly\<bar> > 0.0001 then - yc (velocity o2) else yc (velocity o2))
                                                (zc (velocity o2))\<rparr>)\<rparr>))
            \<and> (one_minus collisionTime < Fin 0 \<longrightarrow>
                 update dt uninit w = Some \<lparr>obj1 = Update dt o1, obj2 = Update dt o2\<rparr>))"
proof -
  have bb: "boundaryBounce (obj2 w) = (obj2 w)\<lparr>velocity := vb\<rparr>"
    unfolding assms(1) by (rule boundaryBounce_eq)
  have same: "vb = velocity (obj2 w) \<and> boundaryBounce (obj2 w) = obj2 w"
    if "\<bar>xc (position (obj2 w))\<bar> \<le> 7549747 / 8388608"
      and "\<bar>yc (position (obj2 w))\<bar> \<le> 13421773 / 16777216"
  proof -
    have "vb = velocity (obj2 w)"
      using that assms(1) by simp
    with bb show ?thesis by simp
  qed
  have o2: "o2 = CalculateAABB (boundaryBounce (obj2 w))"
    using assms(3) bb by simp
  obtain t nx ny where
    s: "SweptAABB (aabb o2) (aabb o1) (vscale (velocity o2) dt) (fst uninit) (snd uninit) = Some (t, nx, ny)"
    using SweptAABB_total by blast
  from SweptAABB_time_range [OF s] obtain r where r: "t = Fin r"
    by auto
  have "(one_minus t \<ge> Fin 0 \<longrightarrow>
          (\<exists>ct. t = Fin ct \<and>
             update dt uninit w =
               Some \<lparr>obj1 = Update ((1 - ct) * dt) (Update (ct * dt) o1),
                     obj2 = Update ((1 - ct) * dt)
                              ((Update (ct * dt) o2)
                                 \<lparr>velocity :=
                                    Vec3 (if \<bar>nx\<bar> > 0.0001 then - xc (velocity o2) else xc (velocity o2))
                                         (if \<bar>ny\<bar> > 0.0001 then - yc (velocity o2) else yc (velocity o2))
                                         (zc (velocity o2))\<rparr>)\<rparr>))
      \<and> (one_minus t < Fin 0 \<longrightarrow>
          update dt uninit w = Some \<lparr>obj1 = Update dt o1, obj2 = Update dt o2\<rparr>)"
  proof (cases "r \<le> 1")
    case True
    then show ?thesis
      using update_collision [of w dt uninit r nx ny] s r o2 assms(2) by simp
  next
    case False
    then have "1 < r" by simp
    then show ?thesis
      using update_no_collision [of w dt uninit r nx ny] s r o2 assms(2) by simp
  qed
  with s bb same show ?thesis
    by blast
qed

theorem update_boundary_phase_witness:
  "boundaryBounce (obj2 far_world) = (obj2 far_world)\<lparr>velocity := Vec3 (- 1) 2 0\<rparr>
   \<and> update (1 / 64) (0, 0) far_world =
       Some \<lparr>obj1 = \<lparr>position = Vec3 0 0 0, velocity = Vec3 0 0 0, scale = Vec3 (1 / 4) (1 / 4) (1 / 4),
                     aabb = \<lparr>aabb_min = Vec3 (- (1 / 4)) (- (1 / 4)) 0, aabb_max = Vec3 (1 / 4) (1 / 4) 0\<rparr>\<rparr>,
             obj2 = \<lparr>position = Vec3 (59 / 64) (- (27 / 32)) 0, velocity = Vec3 (- 1) 2 0,
                     scale = Vec3 (1 / 32) (1 / 32) (1 / 32),
                     aabb = \<lparr>aabb_min = Vec3 (29 / 32) (- (29 / 32)) 0,
                             aabb_max = Vec3 (31 / 32) (- (27 / 32)) 0\<rparr>\<rparr>\<rparr>
   \<and> boundaryBounce (obj2 edge_world) = obj2 edge_world"
proof -
  have vb: "Vec3 (- 1) 2 0 =
      Vec3 (if \<bar>xc (position (obj2 far_world))\<bar> > 7549747 / 8388608
            then - xc (velocity (obj2 far_world)) else xc (velocity (obj2 far_world)))
           (if \<bar>yc (position (obj2 far_world))\<bar> > 13421773 / 16777216
            then - yc (velocity (obj2 far_world)) else yc (velocity (obj2 far_world)))
           (zc (velocity (obj2 far_world)))"
    by (simp add: far_world_def)
  note far = update_boundary_phase [OF vb refl refl, of "1 / 64" "(0, 0)"]
  have a: "boundaryBounce (obj2 far_world) = (obj2 far_world)\<lparr>velocity := Vec3 (- 1) 2 0\<rparr>"
    using far by blast
  have miss: "SweptAABB (aabb (CalculateAABB ((obj2 far_world)\<lparr>velocity := Vec3 (- 1) 2 0\<rparr>)))
                (aabb (CalculateAABB (obj1 far_world)))
                (vscale (velocity (CalculateAABB ((obj2 far_world)\<lparr>velocity := Vec3 (- 1) 2 0\<rparr>))) (1 / 64))
                (fst (0, 0)) (snd (0, 0))
              = Some (Fin 2, 0, 0)"
    by (simp add: eval_defs far_world_def)
  have neg: "one_minus (Fin 2) < Fin 0"
    by simp
  have b: "update (1 / 64) (0, 0) far_world =
             Some \<lparr>obj1 = Update (1 / 64) (CalculateAABB (obj1 far_world)),
                   obj2 = Update (1 / 64) (CalculateAABB ((obj2 far_world)\<lparr>velocity := Vec3 (- 1) 2 0\<rparr>))\<rparr>"
    using far miss neg by auto
  have ve: "velocity (obj2 edge_world) =
      Vec3 (if \<bar>xc (position (obj2 edge_world))\<bar> > 7549747 / 8388608
            then - xc (velocity (obj2 edge_world)) else xc (velocity (obj2 edge_world)))
           (if \<bar>yc (position (obj2 edge_world))\<bar> > 13421773 / 16777216
            then - yc (velocity (obj2 edge_world)) else yc (velocity (obj2 edge_world)))
           (zc (velocity (obj2 edge_world)))"
    by (simp add: edge_world_def)
  have within: "\<bar>xc (position (obj2 edge_world))\<bar> \<le> 7549747 / 8388608"
    "\<bar>yc (position (obj2 edge_world))\<bar> \<le> 13421773 / 16777216"
    by (simp_all add: edge_world_def)
  have c: "boundaryBounce (obj2 edge_world) = obj2 edge_world"
    using update_boundary_phase [OF ve refl refl, of "1 / 64" "(0, 0)"] within by blast
  show ?thesis
    unfolding b using a c
    by (simp add: Update_def CalculateAABB_def vscale_def vadd_def far_world_def)
qed

text \<open>
  With the number 0.8 as the bound the claim fails at |y| = \<^verbatim>\<open>0.8f\<close>, which is above 0.8:
  the test of line 261 is strict, so the y velocity is kept, by the boundary phase and by
  the whole tick.
\<close>

theorem boundary_literal_counterexample:
  "\<bar>yc (position (obj2 edge_world))\<bar> > 0.8
   \<and> yc (velocity (obj2 edge_world)) = 1
   \<and> boundaryBounce (obj2 edge_world) = obj2 edge_world
   \<and> update (1 / 64) (0, 0) edge_world =
       Some \<lparr>obj1 = \<lparr>position = Vec3 0 0 0, velocity = Vec3 0 0 0, scale = Vec3 (1 / 4) (1 / 4) (1 / 4),
                     aabb = \<lparr>aabb_min = Vec3 (- (1 / 4)) (- (1 / 4)) 0, aabb_max = Vec3 (1 / 4) (1 / 4) 0\<rparr>\<rparr>,
             obj2 = \<lparr>position = Vec3 0 (13683917 / 16777216) 0, velocity = Vec3 0 1 0,
                     scale = Vec3 (1 / 32) (1 / 32) (1 / 32),
                     aabb = \<lparr>aabb_min = Vec3 (- (1 / 32)) (12897485 / 16777216) 0,
                             aabb_max = Vec3 (1 / 32) (13946061 / 16777216) 0\<rparr>\<rparr>\<rparr>"
  by (simp add: update_def eval_defs Update_def vadd_def edge_world_def)

subsection \<open>The stationary body stays stationary\<close>

lemma velocity_Update [simp]: "velocity (Update dt obj) = velocity obj"
  by (simp add: Update_def)

lemma velocity_CalculateAABB [simp]: "velocity (CalculateAABB obj) = velocity obj"
  by (simp add: CalculateAABB_def)

lemma abs_velocity_boundaryBounce:
  "\<bar>xc (velocity (boundaryBounce obj))\<bar> = \<bar>xc (velocity obj)\<bar>"
  "\<bar>yc (velocity (boundaryBounce obj))\<bar> = \<bar>yc (velocity obj)\<bar>"
  by (simp_all add: boundaryBounce_def Let_def)

lemma update_velocities:
  assumes "update dt uninit w = Some w'"
  shows "velocity (obj1 w') = velocity (obj1 w)"
    and "\<bar>xc (velocity (obj2 w'))\<bar> = \<bar>xc (velocity (obj2 w))\<bar>"
    and "\<bar>yc (velocity (obj2 w'))\<bar> = \<bar>yc (velocity (obj2 w))\<bar>"
proof -
  obtain t nx ny where
    s: "SweptAABB (aabb (CalculateAABB (boundaryBounce (obj2 w)))) (aabb (CalculateAABB (obj1 w)))
          (vscale (velocity (CalculateAABB (boundaryBounce (obj2 w)))) dt) (fst uninit) (snd uninit)
        = Some (t, nx, ny)"
    using SweptAABB_total by blast
  from SweptAABB_time_range [OF s]
  obtain r where r: "t = Fin r" by auto
  have "velocity (obj1 w') = velocity (obj1 w)
      \<and> \<bar>xc (velocity (obj2 w'))\<bar> = \<bar>xc (velocity (obj2 w))\<bar>
      \<and> \<bar>yc (velocity (obj2 w'))\<bar> = \<bar>yc (velocity (obj2 w))\<bar>"
  proof (cases "r \<le> 1")
    case True
    then show ?thesis
      using update_collision [of w dt uninit r nx ny] s r assms
      by (auto simp: abs_velocity_boundaryBounce)
  next
    case False
    then show ?thesis
      using update_no_collision [of w dt uninit r nx ny] s r assms
      by (auto simp: abs_velocity_boundaryBounce)
  qed
  then show "velocity (obj1 w') = velocity (obj1 w)"
    and "\<bar>xc (velocity (obj2 w'))\<bar> = \<bar>xc (velocity (obj2 w))\<bar>"
    and "\<bar>yc (velocity (obj2 w'))\<bar> = \<bar>yc (velocity (obj2 w))\<bar>"
    by simp_all
qed

lemma ticks_velocities:
  "\<exists>w'. ticks ts w = Some w'
        \<and> velocity (obj1 w') = velocity (obj1 w)
        \<and> \<bar>xc (velocity (obj2 w'))\<bar> = \<bar>xc (velocity (obj2 w))\<bar>
        \<and> \<bar>yc (velocity (obj2 w'))\<bar> = \<bar>yc (velocity (obj2 w))\<bar>"
proof (induction ts arbitrary: w)
  case Nil
  show ?case by simp
next
  case (Cons a ts)
  obtain dt uninit where a: "a = (dt, uninit)"
    by (cases a) auto
  obtain w1 where w1: "update dt uninit w = Some w1"
    using update_total by blast
  from Cons.IH [of w1] obtain w' where
    "ticks ts w1 = Some w'" "velocity (obj1 w') = velocity (obj1 w1)"
    "\<bar>xc (velocity (obj2 w'))\<bar> = \<bar>xc (velocity (obj2 w1))\<bar>"
    "\<bar>yc (velocity (obj2 w'))\<bar> = \<bar>yc (velocity (obj2 w1))\<bar>"
    by blast
  with update_velocities [OF w1] a w1 show ?case
    by simp
qed

text \<open>
  C10. \<open>update\<close> leaves the velocity of \<open>obj1\<close> as it is. \<open>init\<close> sets it to zero, so
  after every run of ticks from the initial world it is still zero, while each component
  of the velocity of \<open>obj2\<close> keeps its magnitude, the speed: one body moves, one does not.
\<close>

theorem obj1_velocity_stays_zero:
  "(\<exists>w'. update dt uninit w = Some w' \<and> velocity (obj1 w') = velocity (obj1 w))
   \<and> velocity (obj1 init) = Vec3 0 0 0
   \<and> (\<exists>w'. ticks ts init = Some w'
          \<and> velocity (obj1 w') = Vec3 0 0 0
          \<and> \<bar>xc (velocity (obj2 w'))\<bar> = speed \<and> \<bar>yc (velocity (obj2 w'))\<bar> = speed)"
proof -
  have a: "\<exists>w'. update dt uninit w = Some w' \<and> velocity (obj1 w') = velocity (obj1 w)"
    using update_total [of dt uninit w] update_velocities(1) by blast
  have b: "velocity (obj1 init) = Vec3 0 0 0"
    by (simp add: init_def)
  have c: "\<bar>xc (velocity (obj2 init))\<bar> = speed" "\<bar>yc (velocity (obj2 init))\<bar> = speed"
    by (simp_all add: init_def speed_def)
  from ticks_velocities [of ts init] b c a show ?thesis
    by auto
qed

theorem obj1_velocity_stays_zero_witness:
  "\<exists>w'. ticks [(physicsStep, 5, 7), (physicsStep, 0, 0), (1, 5, 7)] init = Some w'
         \<and> velocity (obj1 w') = Vec3 0 0 0"
  using obj1_velocity_stays_zero [of 0 "(0, 0)" init "[(physicsStep, 5, 7), (physicsStep, 0, 0), (1, 5, 7)]"]
  by blast

subsection \<open>The fixed-step scheduler\<close>

text \<open>Rounding to a double changes a number by at most 2^-53 of its magnitude.\<close>

lemma round_even_error: "\<bar>of_int (round_even m) - m\<bar> \<le> 1 / 2"
proof -
  have "of_int \<lfloor>m\<rfloor> \<le> m" "m < of_int \<lfloor>m\<rfloor> + 1"
    by linarith+
  then show ?thesis
    by (auto simp: round_even_def Let_def)
qed

lemma dbl_error: "\<bar>dbl x - x\<bar> \<le> \<bar>x\<bar> / 2 ^ 53"
proof (cases "x = 0")
  case True
  then show ?thesis by (simp add: dbl_def)
next
  case False
  define k where "k = \<lfloor>log 2 \<bar>x\<bar>\<rfloor>"
  define p :: real where "p = 2 powr of_int (k - 52)"
  have ppos: "0 < p"
    by (simp add: p_def)
  have "of_int k \<le> log 2 \<bar>x\<bar>"
    by (simp add: k_def)
  then have "2 powr of_int k \<le> 2 powr log 2 \<bar>x\<bar>"
    by simp
  then have kx: "2 powr of_int k \<le> \<bar>x\<bar>"
    using False by simp
  have pk: "p = 2 powr of_int k / 2 ^ 52"
    by (simp add: p_def powr_diff)
  have d: "dbl x = of_int (round_even (x / p)) * p"
    using False by (simp add: dbl_def Let_def k_def p_def)
  have "dbl x - x = (of_int (round_even (x / p)) - x / p) * p"
    using ppos d by (simp add: algebra_simps)
  then have "\<bar>dbl x - x\<bar> = \<bar>of_int (round_even (x / p)) - x / p\<bar> * p"
    using ppos by (simp add: abs_mult)
  also have "\<dots> \<le> 1 / 2 * p"
    using round_even_error [of "x / p"] ppos by (simp add: mult_right_mono)
  also have "\<dots> = 2 powr of_int k / 2 ^ 53"
    by (simp add: pk)
  also have "\<dots> \<le> \<bar>x\<bar> / 2 ^ 53"
    using kx by (simp add: divide_right_mono)
  finally show ?thesis .
qed

lemma dbl_bounds:
  assumes "0 \<le> x"
  shows "0 \<le> dbl x" and "dbl x \<le> x + x / 2 ^ 53" and "x - x / 2 ^ 53 \<le> dbl x"
proof -
  have e: "\<bar>dbl x - x\<bar> \<le> x / 2 ^ 53"
    using dbl_error [of x] assms by simp
  have "x / 2 ^ 53 \<le> x"
    using assms by (simp add: divide_le_eq)
  with e show "0 \<le> dbl x" by linarith
  from e show "dbl x \<le> x + x / 2 ^ 53" by linarith
  from e show "x - x / 2 ^ 53 \<le> dbl x" by linarith
qed

lemma physicsStep_bounds:
  "0 < physicsStep" "119 / 10000 < physicsStep" "physicsStep < 121 / 10000"
  "\<bar>physicsStep - 12 / 1000\<bar> \<le> 1 / 10 ^ 17" "1 / 2 ^ 53 \<le> physicsStep / 2"
  by (simp_all add: physicsStep_def)

lemma stepLoop_result:
  assumes "0 \<le> accumulator s" and "accumulator s \<le> 1"
  shows "\<exists>s' n. stepLoop uninit s = Some s'
          \<and> updates s' = updates s + n
          \<and> ticks (map (\<lambda>k. (physicsStep_float, uninit k)) [updates s ..< updates s + n]) (world s)
              = Some (world s')
          \<and> 0 \<le> accumulator s' \<and> accumulator s' < physicsStep
          \<and> \<bar>accumulator s' - (accumulator s - real n * physicsStep)\<bar> \<le> real n / 2 ^ 53
          \<and> time s' = time s \<and> timebase s' = timebase s"
  using assms
proof (induction "nat \<lfloor>2 * accumulator s / physicsStep\<rfloor>" arbitrary: s rule: less_induct)
  case less
  show ?case
  proof (cases "physicsStep \<le> accumulator s")
    case False
    have "stepLoop uninit s = Some s"
      using False stepLoop.simps [of uninit s] by simp
    with False less.prems(1) show ?thesis
      by (intro exI [of _ s] exI [of _ 0]) simp
  next
    case True
    obtain w where w: "update physicsStep_float (uninit (updates s)) (world s) = Some w"
      using update_total by blast
    define x where "x = accumulator s - physicsStep"
    define s1 where
      "s1 = s\<lparr>world := w, updates := Suc (updates s), accumulator := dbl x\<rparr>"
    have x0: "0 \<le> x" and x1: "x \<le> 1"
      using True less.prems(2) physicsStep_bounds(1) by (simp_all add: x_def)
    have xe: "x / 2 ^ 53 \<le> 1 / 2 ^ 53"
      using x1 by (simp add: divide_right_mono)
    have b0: "0 \<le> dbl x" and bu: "dbl x \<le> x + x / 2 ^ 53" and bl: "x - x / 2 ^ 53 \<le> dbl x"
      using dbl_bounds [OF x0] by blast+
    have half: "dbl x \<le> accumulator s - physicsStep / 2"
      using bu xe physicsStep_bounds(5) unfolding x_def by linarith
    have p1: "0 \<le> accumulator s1" "accumulator s1 \<le> 1"
      using b0 half less.prems(2) physicsStep_bounds(1) by (simp_all add: s1_def)
    have "2 * accumulator s1 / physicsStep \<le> 2 * accumulator s / physicsStep - 1"
      using half physicsStep_bounds(1) by (simp add: s1_def field_simps)
    then have f1: "\<lfloor>2 * accumulator s1 / physicsStep\<rfloor> \<le> \<lfloor>2 * accumulator s / physicsStep\<rfloor> - 1"
      by (metis floor_diff_one floor_mono)
    have "2 \<le> 2 * accumulator s / physicsStep"
      using True physicsStep_bounds(1) by (simp add: field_simps)
    then have f2: "2 \<le> \<lfloor>2 * accumulator s / physicsStep\<rfloor>"
      by (simp add: le_floor_iff)
    from f1 f2 have m: "nat \<lfloor>2 * accumulator s1 / physicsStep\<rfloor> < nat \<lfloor>2 * accumulator s / physicsStep\<rfloor>"
      by linarith
    from less.hyps [OF m p1] obtain s' n1 where
      r: "stepLoop uninit s1 = Some s'"
      and u: "updates s' = updates s1 + n1"
      and t: "ticks (map (\<lambda>k. (physicsStep_float, uninit k)) [updates s1 ..< updates s1 + n1]) (world s1)
               = Some (world s')"
      and a0: "0 \<le> accumulator s'" and ap: "accumulator s' < physicsStep"
      and ae: "\<bar>accumulator s' - (accumulator s1 - real n1 * physicsStep)\<bar> \<le> real n1 / 2 ^ 53"
      and f: "time s' = time s1" "timebase s' = timebase s1"
      by blast
    have r': "stepLoop uninit s = Some s'"
      using True w r stepLoop.simps [of uninit s] by (simp add: s1_def x_def)
    have u': "updates s' = updates s + Suc n1"
      using u by (simp add: s1_def)
    have l: "[updates s ..< updates s + Suc n1] = updates s # [updates s1 ..< updates s1 + n1]"
      by (simp add: s1_def upt_conv_Cons)
    have t': "ticks (map (\<lambda>k. (physicsStep_float, uninit k)) [updates s ..< updates s + Suc n1]) (world s)
               = Some (world s')"
      unfolding l using w t by (simp add: s1_def)
    have "\<bar>accumulator s' - (dbl x - real n1 * physicsStep)\<bar> \<le> real n1 / 2 ^ 53"
      using ae by (simp add: s1_def)
    moreover have "\<bar>dbl x - x\<bar> \<le> 1 / 2 ^ 53"
      using bu bl xe by linarith
    ultimately have
      "\<bar>accumulator s' - (x - real n1 * physicsStep)\<bar> \<le> real n1 / 2 ^ 53 + 1 / 2 ^ 53"
      by linarith
    then have ae': "\<bar>accumulator s' - (accumulator s - real (Suc n1) * physicsStep)\<bar> \<le> real (Suc n1) / 2 ^ 53"
      by (simp add: x_def algebra_simps add_divide_distrib)
    have f': "time s' = time s" "timebase s' = timebase s"
      using f by (simp_all add: s1_def)
    from r' u' t' a0 ap ae' f' show ?thesis
      by blast
  qed
qed

lemma checkTime_running:
  assumes "dbl (now - timebase s) > physicsStep"
  shows "\<exists>s4. checkTime now uninit s = stepLoop uninit s4
          \<and> accumulator s4 =
               dbl (accumulator s
                    + (if dbl (now - timebase s) > 0.25 then 0.25 else dbl (now - timebase s)))
          \<and> timebase s4 = now \<and> time s4 = now
          \<and> updates s4 = updates s \<and> world s4 = world s"
proof -
  define sf where
    "sf = (if dbl (now - FPSTime s) > 1
           then s\<lparr>time := now,
                  fps := (if 0 \<le> dbl (real_of_int (frame s) / dbl (now - FPSTime s))
                          then \<lfloor>dbl (real_of_int (frame s) / dbl (now - FPSTime s))\<rfloor>
                          else \<lceil>dbl (real_of_int (frame s) / dbl (now - FPSTime s))\<rceil>),
                  FPSTime := now, frame := 0\<rparr>
           else s\<lparr>time := now\<rparr>)"
  define s4 where
    "s4 = sf\<lparr>timebase := now,
              accumulator :=
                dbl (accumulator s
                     + (if dbl (now - timebase s) > 0.25 then 0.25 else dbl (now - timebase s)))\<rparr>"
  have "checkTime now uninit s = stepLoop uninit s4"
    using assms by (simp add: checkTime_def Let_def s4_def sf_def)
  moreover have "accumulator s4 =
               dbl (accumulator s
                    + (if dbl (now - timebase s) > 0.25 then 0.25 else dbl (now - timebase s)))"
    "timebase s4 = now" "time s4 = now" "updates s4 = updates s" "world s4 = world s"
    by (simp_all add: s4_def sf_def)
  ultimately show ?thesis
    by blast
qed

lemma checkTime_idle:
  assumes "dbl (now - timebase s) \<le> physicsStep"
  shows "checkTime now uninit s = Some (s\<lparr>time := now\<rparr>)"
  using assms by (simp add: checkTime_def Let_def)

lemma scenario_count:
  fixes n :: nat and a r d :: real
  assumes "0 \<le> r" and "r < physicsStep"
      and "\<bar>r - (a - real n * physicsStep)\<bar> \<le> real n / 2 ^ 53"
      and "\<bar>a - d\<bar> \<le> d / 2 ^ 53" and "\<bar>d - 5 / 100\<bar> \<le> 1 / 1000000000"
  shows "n = 4" and "\<bar>r - 2 / 1000\<bar> \<le> 2 / 1000000000"
proof -
  have p: "(2::real) ^ 53 = 9007199254740992"
    by simp
  note f = assms [unfolded physicsStep_def p]
  have "real n < 5"
    using f by linarith
  moreover have "3 < real n"
    using f by linarith
  ultimately show n: "n = 4"
    by linarith
  have "real n = 4"
    using n by simp
  with f show "\<bar>r - 2 / 1000\<bar> \<le> 2 / 1000000000"
    by linarith
qed

text \<open>
  C8, as the code has it. Let dt be the measured time since the last physics update and
  let the accumulator hold a remainder, at least 0 and below \<open>physicsStep\<close>. If dt exceeds
  \<open>physicsStep\<close>, \<open>checkTime\<close> adds dt, clamped to 0.25, to the accumulator, giving a,
  then calls \<open>update\<close> with the step once for each step it takes off the accumulator,
  while the accumulator is at least \<open>physicsStep\<close>: after n calls the world is the result
  of n ticks and the accumulator is again a remainder, at least 0 and below
  \<open>physicsStep\<close>, equal to a minus n steps up to the rounding of the n subtractions. With
  an empty accumulator and dt within 1e-9 of 0.05 that is exactly 4 calls, and what is
  left is within 2e-9 of 0.002. If dt does not exceed \<open>physicsStep\<close>, only the variable
  \<open>time\<close> changes.
\<close>

theorem checkTime_fixed_step:
  assumes "dt = dbl (now - timebase s)"
      and "0 \<le> accumulator s" and "accumulator s < physicsStep"
      and "a = dbl (accumulator s + (if dt > 0.25 then 0.25 else dt))"
  shows "(dt > physicsStep \<longrightarrow>
            (\<exists>s' n. checkTime now uninit s = Some s'
                 \<and> updates s' = updates s + n
                 \<and> ticks (map (\<lambda>k. (physicsStep_float, uninit k)) [updates s ..< updates s + n]) (world s)
                     = Some (world s')
                 \<and> 0 \<le> accumulator s' \<and> accumulator s' < physicsStep
                 \<and> \<bar>accumulator s' - (a - real n * physicsStep)\<bar> \<le> real n / 2 ^ 53
                 \<and> timebase s' = now
                 \<and> (accumulator s = 0 \<and> \<bar>dt - 5 / 100\<bar> \<le> 1 / 1000000000 \<longrightarrow>
                      n = 4 \<and> \<bar>accumulator s' - 2 / 1000\<bar> \<le> 2 / 1000000000)))
       \<and> (dt \<le> physicsStep \<longrightarrow> checkTime now uninit s = Some (s\<lparr>time := now\<rparr>))"
proof (cases "dt > physicsStep")
  case False
  then show ?thesis
    using checkTime_idle assms(1) by simp
next
  case True
  define c where "c = (if dt > 0.25 then 0.25 else dt)"
  have c0: "0 \<le> c" and c1: "c \<le> 1 / 4"
    using True physicsStep_bounds(1) by (simp_all add: c_def)
  have sum0: "0 \<le> accumulator s + c" and sum1: "accumulator s + c \<le> 1 / 2"
    using assms(2,3) c0 c1 physicsStep_bounds(3) by linarith+
  have a: "a = dbl (accumulator s + c)"
    using assms(4) by (simp add: c_def)
  have "(accumulator s + c) / 2 ^ 53 \<le> accumulator s + c"
    using sum0 by (simp add: divide_le_eq)
  then have a0: "0 \<le> a" and a1: "a \<le> 1"
    using dbl_bounds [OF sum0] sum1 unfolding a by linarith+
  obtain s4 where k: "checkTime now uninit s = stepLoop uninit s4"
    and a4: "accumulator s4 = a" and t4: "timebase s4 = now"
    and u4: "updates s4 = updates s" and w4: "world s4 = world s"
    using checkTime_running [of now s uninit] True assms(1,4) by auto
  have b4: "0 \<le> accumulator s4" "accumulator s4 \<le> 1"
    using a0 a1 a4 by simp_all
  from stepLoop_result [OF b4, of uninit] obtain s' n where
    r: "stepLoop uninit s4 = Some s'"
    and u: "updates s' = updates s + n"
    and t: "ticks (map (\<lambda>k. (physicsStep_float, uninit k)) [updates s ..< updates s + n]) (world s)
             = Some (world s')"
    and r0: "0 \<le> accumulator s'" and rp: "accumulator s' < physicsStep"
    and re: "\<bar>accumulator s' - (a - real n * physicsStep)\<bar> \<le> real n / 2 ^ 53"
    and tb: "timebase s' = now"
    unfolding a4 t4 u4 w4 by blast
  have sc: "n = 4 \<and> \<bar>accumulator s' - 2 / 1000\<bar> \<le> 2 / 1000000000"
    if z: "accumulator s = 0" and d: "\<bar>dt - 5 / 100\<bar> \<le> 1 / 1000000000"
  proof -
    have "dt \<le> 1 / 4"
      using d by linarith
    then have "c = dt"
      by (simp add: c_def)
    then have "a = dbl dt"
      using a z by simp
    moreover have "0 \<le> dt"
      using True physicsStep_bounds(1) by linarith
    ultimately have "\<bar>a - dt\<bar> \<le> dt / 2 ^ 53"
      using dbl_error [of dt] by simp
    moreover have "\<bar>dt - 5 / 100\<bar> \<le> 1 / 1000000000"
      using d by simp
    ultimately show ?thesis
      using scenario_count [OF r0 rp re] by simp
  qed
  from True k r u t r0 rp re tb sc show ?thesis
    by auto
qed

theorem checkTime_fixed_step_witness:
  "(\<exists>s'. checkTime (3602879701896397 / 72057594037927936) zeros start_sim = Some s'
         \<and> updates s' = 4 \<and> \<bar>accumulator s' - 2 / 1000\<bar> \<le> 2 / 1000000000)
   \<and> checkTime (1 / 128) zeros idle_sim = Some (idle_sim\<lparr>time := 1 / 128\<rparr>)"
proof -
  define t :: real where "t = 3602879701896397 / 72057594037927936"
  have t0: "0 \<le> t" and tn: "\<bar>t - 5 / 100\<bar> \<le> 1 / 100000000000000000" and tu: "t / 2 ^ 53 \<le> 1 / 100000000000000"
    by (simp_all add: t_def)
  have d: "dbl t = dbl (t - timebase start_sim)"
    by (simp add: start_sim_def)
  have e: "\<bar>dbl t - t\<bar> \<le> t / 2 ^ 53"
    using dbl_error [of t] t0 by simp
  have near: "\<bar>dbl t - 5 / 100\<bar> \<le> 1 / 1000000000"
    using e tn tu by linarith
  then have gt: "dbl t > physicsStep"
    using physicsStep_bounds(3) by linarith
  have z: "0 \<le> accumulator start_sim" "accumulator start_sim < physicsStep"
    "accumulator start_sim = 0" "updates start_sim = 0"
    using physicsStep_bounds(1) by (simp_all add: start_sim_def)
  have a: "\<exists>s'. checkTime t zeros start_sim = Some s'
         \<and> updates s' = 4 \<and> \<bar>accumulator s' - 2 / 1000\<bar> \<le> 2 / 1000000000"
    using checkTime_fixed_step [OF d z(1,2) refl, of zeros] gt near z(3,4) by auto
  have i: "dbl (1 / 128) = dbl (1 / 128 - timebase idle_sim)"
    by (simp add: idle_sim_def)
  have "dbl (1 / 128) \<le> 1 / 128 + 1 / 128 / 2 ^ 53"
    using dbl_bounds(2) [of "1 / 128"] by simp
  then have le: "dbl (1 / 128) \<le> physicsStep"
    using physicsStep_bounds(2) by simp
  have y: "0 \<le> accumulator idle_sim" "accumulator idle_sim < physicsStep"
    using physicsStep_bounds(2) by (simp_all add: idle_sim_def)
  have b: "checkTime (1 / 128) zeros idle_sim = Some (idle_sim\<lparr>time := 1 / 128\<rparr>)"
    using checkTime_fixed_step [OF i y refl, of zeros] le by blast
  from a b show ?thesis
    unfolding t_def by blast
qed

text \<open>
  The claim as stated fails on a frame that comes 1/128 after the last physics update, with
  1/128 in the accumulator: nothing is added and \<open>update\<close> is not called, although the
  sum 1/64 would hold one step.
\<close>

theorem checkTime_every_frame_counterexample:
  "checkTime (1 / 128) zeros idle_sim = Some (idle_sim\<lparr>time := 1 / 128\<rparr>)
   \<and> accumulator (idle_sim\<lparr>time := 1 / 128\<rparr>) = accumulator idle_sim
   \<and> updates (idle_sim\<lparr>time := 1 / 128\<rparr>) = updates idle_sim
   \<and> 1 / 128 - timebase idle_sim = 1 / 128
   \<and> physicsStep \<le> accumulator idle_sim + 1 / 128"
proof -
  have "dbl (1 / 128) \<le> 1 / 128 + 1 / 128 / 2 ^ 53"
    using dbl_bounds(2) [of "1 / 128"] by simp
  then have "dbl (1 / 128 - timebase idle_sim) \<le> physicsStep"
    using physicsStep_bounds(2) by (simp add: idle_sim_def)
  then have "checkTime (1 / 128) zeros idle_sim = Some (idle_sim\<lparr>time := 1 / 128\<rparr>)"
    by (rule checkTime_idle)
  moreover have "physicsStep \<le> accumulator idle_sim + 1 / 128"
    using physicsStep_bounds(3) by (simp add: idle_sim_def)
  ultimately show ?thesis
    by (simp add: idle_sim_def)
qed

end
